theory Spec2Isabelle
  imports Main "HOL-Library.Word" "HOL-Library.AList"
begin

section \<open>Go values used by package pqutil\<close>

text \<open>
  A Go \<open>string\<close> and a Go \<open>[]byte\<close> are both sequences of bytes; both are modelled as
  \<open>string\<close> (a list of 8-bit \<open>char\<close>s). The two characters that cannot be written
  inside an Isabelle string literal get names.
\<close>

abbreviation (input) dquote :: char where "dquote \<equiv> CHR 0x22"
abbreviation (input) backslash :: char where "backslash \<equiv> CHR 0x5C"

text \<open>
  Every error of the package is built by \<open>fmt.Errorf\<close> (or comes from \<open>strconv\<close>); the
  model keeps one constructor per class of message, named as the specification's
  taxonomy names them:
  \<^item> \<open>MalformedLiteral\<close>: "cannot split data. Unknown format: ..." and
    "cannot split data. missing '...': ..." (\<open>split\<close>);
  \<^item> \<open>ArityError\<close>: "Number of input values/columns does not match number of Row columns";
  \<^item> \<open>RangeError\<close>: "Cannot fit %v into int%d" (\<open>fitInt\<close>), \<open>strconv.ErrRange\<close>,
    "cannot fit float64 %f into REAL Value";
  \<^item> \<open>InvalidBitSize\<close>: "invalid bitSize %d" (\<open>fitInt\<close>) and strconv's bit size error;
  \<^item> \<open>LengthError\<close>: "cannot fit %s into Char(%d) Value";
  \<^item> \<open>TypeMismatch\<close>: "cannot set ... Value with %T -> %v" and
    "Cannot parse %T into Value expected []byte or string" (\<open>srcToBytes\<close>);
  \<^item> \<open>ParseError\<close>: \<open>strconv.ErrSyntax\<close>, a \<open>strconv.ParseFloat\<close> failure and
    "could not parse time string %s";
  \<^item> \<open>InvalidEnumValue\<close>: "Value should be one of %s got %s";
  \<^item> \<open>NotFound\<close>: "No column %s";
  \<^item> \<open>CannotAppend\<close>: "Cannot append ..." (rows and records).
\<close>

datatype error =
    MalformedLiteral
  | ArityError
  | RangeError
  | InvalidBitSize
  | LengthError
  | TypeMismatch
  | ParseError
  | InvalidEnumValue
  | NotFound
  | CannotAppend

text \<open>
  The outcome of a call: it returns a value, returns an error, or panics (a Go run-time
  panic or an explicit \<open>panic(...)\<close>).
\<close>

datatype 'a result = Ok 'a | Err error | Panic

text \<open>Indexing \<open>s[i]\<close> panics out of range; \<open>None\<close> stands for that panic.\<close>

definition byte_at :: "string \<Rightarrow> int \<Rightarrow> char option" where
  "byte_at s i = (if 0 \<le> i \<and> i < int (length s) then Some (s ! nat i) else None)"

text \<open>The slice expression \<open>s[lo:hi]\<close>; \<open>None\<close> stands for the bounds panic.\<close>

definition go_slice :: "string \<Rightarrow> int \<Rightarrow> int \<Rightarrow> string option" where
  "go_slice s lo hi =
     (if 0 \<le> lo \<and> lo \<le> hi \<and> hi \<le> int (length s)
      then Some (take (nat (hi - lo)) (drop (nat lo) s)) else None)"

text \<open>
  \<open>bytes.Replace(s, old, new, -1)\<close>: every non-overlapping instance of \<open>old\<close>, from
  the left, is replaced by \<open>new\<close>. The package only calls it with a non-empty \<open>old\<close>.
\<close>

fun bytes_Replace :: "string \<Rightarrow> string \<Rightarrow> string \<Rightarrow> string" where
  "bytes_Replace [] old new = []"
| "bytes_Replace (c # cs) old new =
     (if old \<noteq> [] \<and> take (length old) (c # cs) = old
      then new @ bytes_Replace (drop (length old) (c # cs)) old new
      else c # bytes_Replace cs old new)"

text \<open>
  \<open>hex.DecodeString\<close>, whose error \<open>split\<close> discards: the bytes decoded before the first
  invalid character or before a trailing odd character are returned.
\<close>

definition fromHexChar :: "char \<Rightarrow> nat option" where
  "fromHexChar c =
     (let n = (of_char c :: nat) in
      if 48 \<le> n \<and> n \<le> 57 then Some (n - 48)
      else if 97 \<le> n \<and> n \<le> 102 then Some (n - 87)
      else if 65 \<le> n \<and> n \<le> 70 then Some (n - 55)
      else None)"

fun hex_DecodeString :: "string \<Rightarrow> string" where
  "hex_DecodeString (p # q # rest) =
     (case fromHexChar p of
        None \<Rightarrow> []
      | Some hi \<Rightarrow>
          (case fromHexChar q of
             None \<Rightarrow> []
           | Some lo \<Rightarrow> char_of (hi * 16 + lo) # hex_DecodeString rest))"
| "hex_DecodeString _ = []"

section \<open>escape\<close>

text \<open>Quoting type \<open>t\<close>: 0 = none, 1 = array style, 2 = row style.\<close>

definition escape :: "string \<Rightarrow> int \<Rightarrow> string" where
  "escape s t =
     (if t = 0 then s
      else
        (let s1 = bytes_Replace s [backslash] [backslash, backslash] in
         if t = 1 then bytes_Replace s1 [dquote] [backslash, dquote]
         else if t = 2 then bytes_Replace s1 [dquote] [dquote, dquote]
         else s1))"

section \<open>split\<close>

text \<open>The local variables of \<open>split\<close>; \<open>mode\<close> and \<open>closer\<close> start as the zero byte.\<close>

record split_state =
  sp_parts :: "string list"
  sp_ignore :: bool
  sp_dep :: int
  sp_mode :: char
  sp_closer :: char
  sp_a :: int
  sp_z :: int

definition split_init :: split_state where
  "split_init =
     \<lparr>sp_parts = [], sp_ignore = False, sp_dep = 0, sp_mode = CHR 0x00,
      sp_closer = CHR 0x00, sp_a = - 1, sp_z = - 1\<rparr>"

text \<open>The last case of the outer \<open>switch\<close> (\<open>case a != -1\<close>): collecting a value.\<close>

definition split_collecting :: "string \<Rightarrow> nat \<Rightarrow> char \<Rightarrow> split_state \<Rightarrow> split_state result" where
  "split_collecting s i b st =
     (if \<not> sp_ignore st \<and> sp_mode st = CHR ''}'' \<and> b = backslash
        then Ok (st\<lparr>sp_ignore := True\<rparr>)
      else if \<not> sp_ignore st \<and> sp_mode st = CHR '')'' \<and> b = dquote
              \<and> byte_at s (int i + 1) = None
        then Panic
      else if \<not> sp_ignore st \<and> sp_mode st = CHR '')'' \<and> b = dquote
              \<and> byte_at s (int i + 1) = Some dquote
        then Ok (st\<lparr>sp_ignore := True\<rparr>)
      else if sp_ignore st
        then Ok (st\<lparr>sp_ignore := False\<rparr>)
      else if sp_closer st = CHR ''}'' \<and> (b = CHR ''}'' \<or> b = CHR ''}'')
        then
          (if b = CHR ''{'' then Ok (st\<lparr>sp_dep := sp_dep st + 1\<rparr>)
           else if b = CHR ''}'' then
             (let d = sp_dep st - 1 in
              if d = 0 then Ok (st\<lparr>sp_dep := d, sp_z := int i\<rparr>)
              else Ok (st\<lparr>sp_dep := d\<rparr>))
           else Ok st)
      else if sp_closer st = dquote \<and> b = sp_closer st
        then Ok (st\<lparr>sp_z := int i - 1\<rparr>)
      else if sp_closer st = CHR '','' \<and> b = sp_closer st
        then Ok (st\<lparr>sp_z := int i - 1\<rparr>)
      else Ok st)"

text \<open>The outer \<open>switch\<close> of the loop body, its cases in the order of the source.\<close>

definition split_switch :: "string \<Rightarrow> nat \<Rightarrow> char \<Rightarrow> split_state \<Rightarrow> split_state result" where
  "split_switch s i b st =
     (if i = 0 then
        (if b = CHR ''{'' then Ok (st\<lparr>sp_mode := CHR ''}''\<rparr>)
         else if b = CHR ''('' then Ok (st\<lparr>sp_mode := CHR '')''\<rparr>)
         else Err MalformedLiteral)
      else if sp_a st = - 1 then
        (if b = CHR '' '' \<or> b = CHR '','' then Ok st
         else if b = CHR ''{'' then
           Ok (st\<lparr>sp_a := int i, sp_dep := sp_dep st + 1, sp_closer := CHR ''}''\<rparr>)
         else if b = dquote then Ok (st\<lparr>sp_a := int i + 1, sp_closer := dquote\<rparr>)
         else Ok (st\<lparr>sp_a := int i, sp_closer := CHR '',''\<rparr>))
      else if int i = int (length s) - 1 then
        (if b \<noteq> sp_mode st then Err MalformedLiteral
         else Ok (st\<lparr>sp_z := int i - 1\<rparr>))
      else if sp_a st \<noteq> - 1 then split_collecting s i b st
      else Ok st)"

text \<open>The \<open>if z != -1\<close> block that ends the loop body: unescape and store the part.\<close>

definition split_unescape :: "char \<Rightarrow> string \<Rightarrow> string" where
  "split_unescape m part0 =
     (let part1 = bytes_Replace part0 [backslash, backslash] [backslash];
          part2 = (if m = CHR ''}'' then bytes_Replace part1 [backslash, dquote] [dquote]
                   else if m = CHR '')'' then bytes_Replace part1 [dquote, dquote] [dquote]
                   else part1)
      in if 2 \<le> length part2 \<and> part2 ! 0 = backslash \<and> part2 ! 1 = CHR ''x''
         then hex_DecodeString (drop 2 part2)
         else part2)"

definition split_check_end :: "string \<Rightarrow> split_state \<Rightarrow> split_state result" where
  "split_check_end s st =
     (if sp_z st \<noteq> - 1 then
        (case go_slice s (sp_a st) (sp_z st + 1) of
           None \<Rightarrow> Panic
         | Some part \<Rightarrow>
             Ok (st\<lparr>sp_parts := sp_parts st @ [split_unescape (sp_mode st) part],
                    sp_a := - 1, sp_z := - 1, sp_dep := 0\<rparr>))
      else Ok st)"

definition split_body :: "string \<Rightarrow> nat \<Rightarrow> split_state \<Rightarrow> split_state result" where
  "split_body s i st =
     (case split_switch s i (s ! i) st of
        Ok st1 \<Rightarrow> split_check_end s st1
      | Err e \<Rightarrow> Err e
      | Panic \<Rightarrow> Panic)"

text \<open>\<open>for i, b := range s\<close>: the indices \<open>0 ..< len(s)\<close> in order, left early by \<open>return\<close>.\<close>

fun split_loop :: "string \<Rightarrow> nat list \<Rightarrow> split_state \<Rightarrow> string list result" where
  "split_loop s [] st = Ok (sp_parts st)"
| "split_loop s (i # rest) st =
     (case split_body s i st of
        Ok st1 \<Rightarrow> split_loop s rest st1
      | Err e \<Rightarrow> Err e
      | Panic \<Rightarrow> Panic)"

definition split :: "string \<Rightarrow> string list result" where
  "split s = split_loop s [0 ..< length s] split_init"

section \<open>parseHStore\<close>

text \<open>
  A Go \<open>map[string]T\<close> is an association list with distinct keys: \<open>m[k] = v\<close> is
  \<open>AList.update k v m\<close>, a lookup is \<open>map_of m k\<close>, and \<open>range\<close> visits the entries
  in the order of the list (Go leaves the order open).
\<close>

record hstore_state =
  hs_m :: "(string \<times> string) list"
  hs_st :: int
  hs_ka :: int
  hs_kz :: int
  hs_va :: int
  hs_vz :: int

definition hstore_init :: hstore_state where
  "hstore_init = \<lparr>hs_m = [], hs_st = 0, hs_ka = - 1, hs_kz = - 1, hs_va = - 1, hs_vz = - 1\<rparr>"

text \<open>
  \<open>b == 'N' && s[i+1] == 'U' && s[i+2] == 'L' && s[i+3] == 'L'\<close>, evaluated from the
  left; an index past the end panics.
\<close>

definition hstore_is_null :: "string \<Rightarrow> nat \<Rightarrow> bool result" where
  "hstore_is_null s i =
     (if s ! i \<noteq> CHR ''N'' then Ok False
      else
        (case byte_at s (int i + 1) of
           None \<Rightarrow> Panic
         | Some c1 \<Rightarrow>
             (if c1 \<noteq> CHR ''U'' then Ok False
              else
                (case byte_at s (int i + 2) of
                   None \<Rightarrow> Panic
                 | Some c2 \<Rightarrow>
                     (if c2 \<noteq> CHR ''L'' then Ok False
                      else
                        (case byte_at s (int i + 3) of
                           None \<Rightarrow> Panic
                         | Some c3 \<Rightarrow> Ok (c3 = CHR ''L'')))))))"

text \<open>
  The \<open>switch\<close> of the loop body. The flag of the result says that the first case
  (\<open>b == '\\'\<close>) ran its \<open>i++\<close>.
\<close>

definition hstore_switch :: "string \<Rightarrow> nat \<Rightarrow> hstore_state \<Rightarrow> (bool \<times> hstore_state) result" where
  "hstore_switch s i st =
     (let b = s ! i in
      if b = backslash then Ok (True, st)
      else if hs_st st = 0 then
        (if b = dquote then Ok (False, st\<lparr>hs_ka := int i + 1, hs_st := hs_st st + 1\<rparr>)
         else Ok (False, st))
      else if hs_st st = 1 then
        (if b = dquote then Ok (False, st\<lparr>hs_kz := int i - 1, hs_st := hs_st st + 1\<rparr>)
         else Ok (False, st))
      else if hs_st st = 2 then
        (case hstore_is_null s i of
           Panic \<Rightarrow> Panic
         | Err e \<Rightarrow> Err e
         | Ok True \<Rightarrow> Ok (False, st\<lparr>hs_va := int i, hs_vz := int i + 3, hs_st := 0\<rparr>)
         | Ok False \<Rightarrow>
             if b = dquote then Ok (False, st\<lparr>hs_va := int i + 1, hs_st := hs_st st + 1\<rparr>)
             else Ok (False, st))
      else if hs_st st = 3 then
        (if b = dquote then Ok (False, st\<lparr>hs_vz := int i - 1, hs_st := 0\<rparr>)
         else Ok (False, st))
      else Ok (False, st))"

definition hstore_unescape :: "string \<Rightarrow> string" where
  "hstore_unescape k =
     bytes_Replace (bytes_Replace k [backslash, backslash] [backslash])
       [backslash, dquote] [dquote]"

text \<open>The \<open>if kz != -1 && vz != -1\<close> block: store the pair unless the value reads NULL.\<close>

definition hstore_store :: "string \<Rightarrow> hstore_state \<Rightarrow> hstore_state result" where
  "hstore_store s st =
     (if hs_kz st \<noteq> - 1 \<and> hs_vz st \<noteq> - 1 then
        (case go_slice s (hs_ka st) (hs_kz st + 1) of
           None \<Rightarrow> Panic
         | Some k \<Rightarrow>
             (case go_slice s (hs_va st) (hs_vz st + 1) of
                None \<Rightarrow> Panic
              | Some v \<Rightarrow>
                  Ok (st\<lparr>hs_m := (if v = ''NULL'' then hs_m st
                                   else AList.update (hstore_unescape k) (hstore_unescape v) (hs_m st)),
                         hs_ka := - 1, hs_kz := - 1, hs_va := - 1, hs_vz := - 1\<rparr>)))
      else Ok st)"

function parseHStore_loop :: "string \<Rightarrow> nat \<Rightarrow> hstore_state \<Rightarrow> (string \<times> string) list result" where
  "parseHStore_loop s i st =
     (if i < length s then
        (case hstore_switch s i st of
           Panic \<Rightarrow> Panic
         | Err e \<Rightarrow> Err e
         | Ok (skip, st1) \<Rightarrow>
             (case hstore_store s st1 of
                Panic \<Rightarrow> Panic
              | Err e \<Rightarrow> Err e
              | Ok st2 \<Rightarrow> parseHStore_loop s (if skip then i + 2 else i + 1) st2))
      else Ok (hs_m st))"
  by pat_completeness auto
termination
  by (relation "measure (\<lambda>(s, i, st). length s - i)") auto

declare parseHStore_loop.simps [simp del]

definition parseHStore :: "string \<Rightarrow> (string \<times> string) list result" where
  "parseHStore s = parseHStore_loop s 0 hstore_init"

section \<open>Integers as text\<close>

text \<open>\<open>fmt.Sprintf("%d", n)\<close> for an \<open>int64\<close>: decimal digits, with a minus sign when negative.\<close>

definition digit_char :: "nat \<Rightarrow> char" where
  "digit_char d = char_of (48 + d)"

fun nat_dec :: "nat \<Rightarrow> string" where
  "nat_dec n = (if n < 10 then [digit_char n] else nat_dec (n div 10) @ [digit_char (n mod 10)])"

declare nat_dec.simps [simp del]

definition fmt_d :: "64 word \<Rightarrow> string" where
  "fmt_d n = (if sint n < 0 then CHR ''-'' # nat_dec (nat (- sint n)) else nat_dec (nat (sint n)))"

text \<open>The number that a text of decimal digits denotes; \<open>None\<close> when a byte is no digit.\<close>

definition is_digit :: "char \<Rightarrow> bool" where
  "is_digit c = (48 \<le> (of_char c :: nat) \<and> (of_char c :: nat) \<le> 57)"


text \<open>
  The loop of \<open>strconv.ParseUint\<close> in base 10, byte by byte: a byte that is no digit
  returns 0 with a syntax error, a number above \<open>maxVal\<close> returns \<open>maxVal\<close> with a range
  error, whichever comes first.
\<close>

fun parseUint_digits :: "nat \<Rightarrow> string \<Rightarrow> nat \<Rightarrow> nat \<times> error option" where
  "parseUint_digits maxVal [] n = (n, None)"
| "parseUint_digits maxVal (c # cs) n =
     (if \<not> is_digit c then (0, Some ParseError)
      else
        (let n1 = n * 10 + ((of_char c :: nat) - 48)
         in if maxVal < n1 then (maxVal, Some RangeError)
            else parseUint_digits maxVal cs n1))"

text \<open>
  \<open>strconv.ParseInt(s, 10, bitSize)\<close>, returning the value and the error as Go does: 0
  with a syntax error, the nearest bound of the width with a range error.
\<close>

definition strconv_ParseInt :: "string \<Rightarrow> int \<Rightarrow> 64 word \<times> error option" where
  "strconv_ParseInt s bitSize =
     (if s = [] then (0, Some ParseError)
      else
        (let neg = (hd s = CHR ''-'');
             s1 = (if hd s = CHR ''+'' \<or> hd s = CHR ''-'' then tl s else s)
         in if s1 = [] then (0, Some ParseError)
            else if bitSize < 0 \<or> 64 < bitSize then (0, Some InvalidBitSize)
            else
              (let bs = (if bitSize = 0 then 64 else bitSize);
                   cutoff = (2 :: int) ^ nat (bs - 1)
               in case parseUint_digits (2 ^ nat bs - 1) s1 0 of
                    (un, err) \<Rightarrow>
                      if err \<noteq> None \<and> err \<noteq> Some RangeError then (0, err)
                      else if \<not> neg \<and> cutoff \<le> int un
                        then (word_of_int (cutoff - 1), Some RangeError)
                      else if neg \<and> cutoff < int un
                        then (word_of_int (- cutoff), Some RangeError)
                      else (word_of_int (if neg then - int un else int un), None))))"

text \<open>\<open>fmt.Sprintf("\\x%x", b)\<close> for a byte slice: two lower-case hex digits per byte.\<close>

definition hex_digit :: "nat \<Rightarrow> char" where
  "hex_digit d = (if d < 10 then char_of (48 + d) else char_of (87 + d))"

fun fmt_x :: "string \<Rightarrow> string" where
  "fmt_x [] = []"
| "fmt_x (c # cs) =
     hex_digit ((of_char c :: nat) div 16) # hex_digit ((of_char c :: nat) mod 16) # fmt_x cs"

section \<open>The standard library the package calls\<close>

text \<open>
  Floating-point numbers and \<open>time.Time\<close> values are not interpreted: \<open>'f\<close> is the type of
  \<open>float64\<close> values and \<open>'t\<close> the type of \<open>time.Time\<close> values, and the functions of the
  Go standard library on them are parameters of the model, collected in one record.
  A function that returns \<open>(value, error)\<close> returns the pair, since the package stores
  the value before it looks at the error.
  \<^item> \<open>float_zero\<close>, \<open>time_zero\<close>: the zero values of the two types;
  \<^item> \<open>strconv_ParseFloat s bitSize\<close>, \<open>strconv_FormatFloat x fmt prec bitSize\<close>;
  \<^item> \<open>gt_MaxFloat32 x\<close>: the comparison \<open>x > math.MaxFloat32\<close>;
  \<^item> \<open>time_Parse layout value\<close>, \<open>time_Format t layout\<close>;
  \<^item> \<open>utf8_RuneCountInString\<close>: the width that \<open>fmt\<close> pads a string to is counted in runes.
\<close>

record ('f, 't) golib =
  float_zero :: 'f
  strconv_ParseFloat :: "string \<Rightarrow> int \<Rightarrow> 'f \<times> error option"
  strconv_FormatFloat :: "'f \<Rightarrow> char \<Rightarrow> int \<Rightarrow> int \<Rightarrow> string"
  gt_MaxFloat32 :: "'f \<Rightarrow> bool"
  time_zero :: 't
  time_Parse :: "string \<Rightarrow> string \<Rightarrow> 't \<times> error option"
  time_Format :: "'t \<Rightarrow> string \<Rightarrow> string"
  utf8_RuneCountInString :: "string \<Rightarrow> nat"

section \<open>Kinds and values\<close>

text \<open>
  A \<open>Valstructor\<close> is a closure that remembers the parameters of a kind; \<open>kind\<close> lists
  the closures the package builds: \<open>newInt bs\<close> (\<open>SmallInt\<close>, \<open>Integer\<close>, \<open>BigInt\<close>),
  \<open>Numeric prec scale\<close>, \<open>Enum labels\<close>, \<open>newfloat bs\<close> (\<open>Real\<close>, \<open>Double\<close>), \<open>Bool\<close>,
  \<open>Text\<close>, \<open>VarChar n\<close>, \<open>Char n\<close>, \<open>Bytea\<close>, \<open>HStore\<close>, \<open>Timestamp\<close>, \<open>Row ks\<close>,
  \<open>Record cols\<close> (of a \<open>col\<close> the name and the kind are kept) and \<open>Array el\<close>.
  \<open>Enum\<close> panics on an empty list of labels before it returns a closure.
\<close>

datatype kind =
    KInt int
  | KNumeric int int
  | KEnum "string list"
  | KFloat int
  | KBool
  | KText
  | KVarChar int
  | KChar int
  | KBytea
  | KHStore
  | KTimestamp
  | KRow "kind list"
  | KRecord "(string \<times> kind) list"
  | KArray kind

abbreviation SmallInt :: kind where "SmallInt \<equiv> KInt 16"
abbreviation Integer :: kind where "Integer \<equiv> KInt 32"
abbreviation BigInt :: kind where "BigInt \<equiv> KInt 64"

text \<open>The structs of the scalar kinds.\<close>

record pgInteger =
  int_n :: "64 word"
  int_bs :: int
  int_valid :: bool

record pgNumeric =
  num_s :: string
  num_prec :: int
  num_scale :: int
  num_valid :: bool

record pgEnum =
  enum_s :: string
  enum_ls :: "string list"
  enum_valid :: bool

record 'f pgFloat =
  float_n :: 'f
  float_bs :: int
  float_valid :: bool

record pgBool =
  bool_b :: bool
  bool_valid :: bool

record pgText =
  text_s :: string
  text_n :: int
  text_p :: bool
  text_valid :: bool

record pgBytea =
  bytea_b :: string
  bytea_valid :: bool

record 't pgTimestamp =
  ts_t :: 't
  ts_tz :: string
  ts_valid :: bool

text \<open>
  A \<open>Value\<close> is a pointer to one of the structs; values own their children, so a value is
  a tree. A \<open>pgHStore\<close> is its map \<open>m\<close> and \<open>valid\<close>; a \<open>pgRow\<close> is \<open>vs\<close> and \<open>valid\<close>; a
  \<open>pgRecord\<close> is \<open>vs\<close>, \<open>cs\<close> and \<open>valid\<close> (its \<open>rel\<close> plays no part here); a \<open>pgArray\<close> is
  \<open>vs\<close>, \<open>el\<close> and \<open>valid\<close>.
\<close>

datatype ('f, 't) "value" =
    VInteger pgInteger
  | VNumeric pgNumeric
  | VEnum pgEnum
  | VFloat "'f pgFloat"
  | VBool pgBool
  | VText pgText
  | VBytea pgBytea
  | VTimestamp "'t pgTimestamp"
  | VHStore "(string \<times> ('f, 't) value) list" bool
  | VRow "('f, 't) value list" bool
  | VRecord "('f, 't) value list" "(string \<times> kind) list" bool
  | VArray "('f, 't) value list" kind bool

text \<open>
  The dynamic type of an \<open>interface{}\<close> source. Go's \<open>int\<close> and \<open>uint\<close> are 64 bits wide.
  A \<open>float32\<close> is carried as the \<open>float64\<close> it converts to. \<open>SBytes\<close> is a \<open>[]byte\<close>, nil or
  not. \<open>SOther\<close> is a value of any type that no type switch of the package names.
\<close>

datatype ('f, 't) native =
    SNil
  | SInt "64 word"
  | SInt8 "8 word"
  | SInt16 "16 word"
  | SInt32 "32 word"
  | SInt64 "64 word"
  | SUint "64 word"
  | SUint8 "8 word"
  | SUint16 "16 word"
  | SUint32 "32 word"
  | SUint64 "64 word"
  | SFloat32 'f
  | SFloat64 'f
  | SBool bool
  | SString string
  | SBytes string
  | STime 't
  | SMap "(string \<times> string) list"
  | SList "('f, 't) native list"
  | SValue "('f, 't) value"
  | SOther

abbreviation nullb :: string where "nullb \<equiv> ''NULL''"

section \<open>fitInt and srcToBytes\<close>

text \<open>
  The first \<open>switch\<close> of \<open>fitInt\<close>: the conversion to \<open>int64\<close>. \<open>None\<close> is the early return
  of the two unsigned 64-bit cases; a source of no integer type leaves \<open>r\<close> at 0.
\<close>

definition fitInt_convert :: "('f, 't) native \<Rightarrow> 64 word option" where
  "fitInt_convert v =
     (case v of
        SInt n \<Rightarrow> Some n
      | SInt8 n \<Rightarrow> Some (scast n)
      | SInt16 n \<Rightarrow> Some (scast n)
      | SInt32 n \<Rightarrow> Some (scast n)
      | SInt64 n \<Rightarrow> Some n
      | SUint8 n \<Rightarrow> Some (ucast n)
      | SUint16 n \<Rightarrow> Some (ucast n)
      | SUint32 n \<Rightarrow> Some (ucast n)
      | SUint n \<Rightarrow> (if n < 9223372036854775807 then Some n else None)
      | SUint64 n \<Rightarrow> (if n < 9223372036854775807 then Some n else None)
      | _ \<Rightarrow> Some 0)"

definition fitInt :: "('f, 't) native \<Rightarrow> int \<Rightarrow> 64 word \<times> error option" where
  "fitInt v bitSize =
     (case fitInt_convert v of
        None \<Rightarrow> (0, Some RangeError)
      | Some r \<Rightarrow>
          if bitSize = 8 then (if sint r < 127 then (r, None) else (0, Some RangeError))
          else if bitSize = 16 then (if sint r < 32767 then (r, None) else (0, Some RangeError))
          else if bitSize = 32 then (if sint r < 2147483647 then (r, None) else (0, Some RangeError))
          else if bitSize = 64 then (r, None)
          else (0, Some InvalidBitSize))"

definition srcToBytes :: "('f, 't) native \<Rightarrow> string result" where
  "srcToBytes src =
     (case src of
        SString x \<Rightarrow> Ok x
      | SBytes x \<Rightarrow> Ok x
      | _ \<Rightarrow> Err TypeMismatch)"

section \<open>Scan of the scalar kinds\<close>

text \<open>
  \<open>Scan\<close> changes the struct behind the pointer and returns an error: the model returns
  the struct after the call and \<open>Ok ()\<close> for a nil error. When \<open>Scan\<close> panics, the struct
  is the one the panic leaves behind.
\<close>

definition is_go_int :: "('f, 't) native \<Rightarrow> bool" where
  "is_go_int src =
     (case src of
        SInt _ \<Rightarrow> True | SInt8 _ \<Rightarrow> True | SInt16 _ \<Rightarrow> True | SInt32 _ \<Rightarrow> True
      | SInt64 _ \<Rightarrow> True | SUint _ \<Rightarrow> True | SUint8 _ \<Rightarrow> True | SUint16 _ \<Rightarrow> True
      | SUint32 _ \<Rightarrow> True | SUint64 _ \<Rightarrow> True | _ \<Rightarrow> False)"

definition store_int :: "pgInteger \<Rightarrow> 64 word \<times> error option \<Rightarrow> pgInteger \<times> unit result" where
  "store_int k r =
     (case r of
        (n, None) \<Rightarrow> (k\<lparr>int_n := n\<rparr>, Ok ())
      | (n, Some e) \<Rightarrow> (k\<lparr>int_n := n\<rparr>, Err e))"

definition pgInteger_Scan :: "pgInteger \<Rightarrow> ('f, 't) native \<Rightarrow> pgInteger \<times> unit result" where
  "pgInteger_Scan k src =
     (if src = SNil then (k\<lparr>int_valid := False\<rparr>, Ok ())
      else
        (let k1 = k\<lparr>int_valid := True\<rparr> in
         if is_go_int src then store_int k1 (fitInt src (int_bs k1))
         else case src of
           SBytes x \<Rightarrow> store_int k1 (strconv_ParseInt x (int_bs k1))
         | SString x \<Rightarrow> store_int k1 (strconv_ParseInt x (int_bs k1))
         | _ \<Rightarrow> (k1, Err TypeMismatch)))"

definition pgNumeric_Scan ::
  "('f, 't) golib \<Rightarrow> pgNumeric \<Rightarrow> ('f, 't) native \<Rightarrow> pgNumeric \<times> unit result" where
  "pgNumeric_Scan L k src =
     (if src = SNil then (k\<lparr>num_valid := False\<rparr>, Ok ())
      else
        (let k1 = k\<lparr>num_valid := True\<rparr> in
         case src of
           SFloat32 x \<Rightarrow> (k1\<lparr>num_s := strconv_FormatFloat L x CHR ''f'' (num_scale k1) 64\<rparr>, Ok ())
         | SFloat64 x \<Rightarrow> (k1\<lparr>num_s := strconv_FormatFloat L x CHR ''f'' (num_scale k1) 64\<rparr>, Ok ())
         | SString x \<Rightarrow> (k1\<lparr>num_s := x\<rparr>, Ok ())
         | SBytes x \<Rightarrow> (k1\<lparr>num_s := x\<rparr>, Ok ())
         | _ \<Rightarrow> (k1, Err TypeMismatch)))"

text \<open>The label check of \<open>pgEnum.Scan\<close>: the loop sets \<open>ok\<close> when some label equals \<open>k.s\<close>.\<close>

definition enum_check :: "pgEnum \<Rightarrow> pgEnum \<times> unit result" where
  "enum_check k = (if enum_s k \<in> set (enum_ls k) then (k, Ok ()) else (k, Err InvalidEnumValue))"

definition pgEnum_Scan :: "pgEnum \<Rightarrow> ('f, 't) native \<Rightarrow> pgEnum \<times> unit result" where
  "pgEnum_Scan k src =
     (if src = SNil then (k\<lparr>enum_valid := False\<rparr>, Ok ())
      else
        (let k1 = k\<lparr>enum_valid := True\<rparr> in
         case src of
           SString x \<Rightarrow> enum_check (k1\<lparr>enum_s := x\<rparr>)
         | SBytes x \<Rightarrow> enum_check (k1\<lparr>enum_s := x\<rparr>)
         | _ \<Rightarrow> (k1, Err TypeMismatch)))"

definition store_float :: "'f pgFloat \<Rightarrow> 'f \<times> error option \<Rightarrow> 'f pgFloat \<times> unit result" where
  "store_float k r =
     (case r of
        (x, None) \<Rightarrow> (k\<lparr>float_n := x\<rparr>, Ok ())
      | (x, Some e) \<Rightarrow> (k\<lparr>float_n := x\<rparr>, Err e))"

definition pgFloat_Scan ::
  "('f, 't) golib \<Rightarrow> 'f pgFloat \<Rightarrow> ('f, 't) native \<Rightarrow> 'f pgFloat \<times> unit result" where
  "pgFloat_Scan L k src =
     (if src = SNil then (k\<lparr>float_valid := False\<rparr>, Ok ())
      else
        (let k1 = k\<lparr>float_valid := True\<rparr> in
         case src of
           SFloat64 x \<Rightarrow>
             (if float_bs k1 = 32 \<and> gt_MaxFloat32 L x then (k1, Err RangeError)
              else (k1\<lparr>float_n := x\<rparr>, Ok ()))
         | SFloat32 x \<Rightarrow> (k1\<lparr>float_n := x\<rparr>, Ok ())
         | SString x \<Rightarrow> store_float k1 (strconv_ParseFloat L x (float_bs k1))
         | SBytes x \<Rightarrow> store_float k1 (strconv_ParseFloat L x (float_bs k1))
         | _ \<Rightarrow> (k1, Err TypeMismatch)))"

text \<open>\<open>x[0] == 't' || x[0] == '1'\<close> panics on an empty text.\<close>

definition bool_of_text :: "pgBool \<Rightarrow> string \<Rightarrow> pgBool \<times> unit result" where
  "bool_of_text k x =
     (case x of
        [] \<Rightarrow> (k, Panic)
      | c # _ \<Rightarrow> (if c = CHR ''t'' \<or> c = CHR ''1'' then (k\<lparr>bool_b := True\<rparr>, Ok ()) else (k, Ok ())))"

definition pgBool_Scan :: "pgBool \<Rightarrow> ('f, 't) native \<Rightarrow> pgBool \<times> unit result" where
  "pgBool_Scan k src =
     (if src = SNil then (k\<lparr>bool_valid := False\<rparr>, Ok ())
      else
        (let k1 = k\<lparr>bool_valid := True, bool_b := False\<rparr> in
         case src of
           SString x \<Rightarrow> bool_of_text k1 x
         | SInt x \<Rightarrow> (if x = 1 then (k1\<lparr>bool_b := True\<rparr>, Ok ()) else (k1, Ok ()))
         | SBytes x \<Rightarrow> bool_of_text k1 x
         | SBool x \<Rightarrow> (k1\<lparr>bool_b := x\<rparr>, Ok ())
         | _ \<Rightarrow> (k1, Err TypeMismatch)))"

text \<open>\<open>strings.TrimRight(s, " ")\<close>.\<close>

definition TrimRight_space :: "string \<Rightarrow> string" where
  "TrimRight_space s = rev (dropWhile (\<lambda>c. c = CHR '' '') (rev s))"

text \<open>
  \<open>fmt.Sprintf("%-"+strconv.Itoa(n)+"s", s)\<close> for a positive \<open>n\<close>. \<open>fmt\<close> reads the
  width digit by digit and gives up when the number read so far exceeds 1000000 as the
  next digit comes: that is the case when \<open>n\<close> without its last digit exceeds 1000000.
  Then no verb is left and the argument is reported as extra. Otherwise \<open>s\<close> is
  followed by spaces up to a width of \<open>n\<close> runes.
\<close>

definition width_too_large :: "int \<Rightarrow> bool" where
  "width_too_large n = (1000000 < n div 10)"

definition pad_right :: "('f, 't) golib \<Rightarrow> int \<Rightarrow> string \<Rightarrow> string" where
  "pad_right L n s =
     (if width_too_large n then ''%!(NOVERB)%!(EXTRA string='' @ s @ '')''
      else s @ replicate (nat n - utf8_RuneCountInString L s) CHR '' '')"

definition text_fit :: "('f, 't) golib \<Rightarrow> pgText \<Rightarrow> pgText \<times> unit result" where
  "text_fit L k =
     (if text_p k then
        (let k1 = k\<lparr>text_s := TrimRight_space (text_s k)\<rparr> in
         if text_n k1 < int (length (text_s k1)) then (k1, Err LengthError)
         else if int (length (text_s k1)) < text_n k1
           then (k1\<lparr>text_s := pad_right L (text_n k1) (text_s k1)\<rparr>, Ok ())
         else (k1, Ok ()))
      else if 0 < text_n k \<and> text_n k < int (length (text_s k))
        then (k\<lparr>text_s := take (nat (text_n k)) (text_s k)\<rparr>, Ok ())
      else (k, Ok ()))"

definition pgText_Scan ::
  "('f, 't) golib \<Rightarrow> pgText \<Rightarrow> ('f, 't) native \<Rightarrow> pgText \<times> unit result" where
  "pgText_Scan L k src =
     (if src = SNil then (k\<lparr>text_valid := False\<rparr>, Ok ())
      else
        (let k1 = k\<lparr>text_valid := True\<rparr> in
         case src of
           SString x \<Rightarrow> text_fit L (k1\<lparr>text_s := x\<rparr>)
         | SBytes x \<Rightarrow> text_fit L (k1\<lparr>text_s := x\<rparr>)
         | _ \<Rightarrow> (k1, Err TypeMismatch)))"

definition pgBytea_Scan :: "pgBytea \<Rightarrow> ('f, 't) native \<Rightarrow> pgBytea \<times> unit result" where
  "pgBytea_Scan k src =
     (if src = SNil then (k\<lparr>bytea_valid := False\<rparr>, Ok ())
      else
        (let k1 = k\<lparr>bytea_valid := True\<rparr> in
         case src of
           SBytes s \<Rightarrow> (k1\<lparr>bytea_b := s\<rparr>, Ok ())
         | _ \<Rightarrow> (k1, Err TypeMismatch)))"

definition timeFormats :: "string list" where
  "timeFormats =
     [''2006-01-02 15:04:05-07'',
      ''2006-01-02 15:04:05'',
      ''2006-01-02 15:04'',
      ''15:04:05-07'',
      ''15:04:05'',
      ''2006-01-02'']"

text \<open>
  The loop of \<open>parseTime\<close>: each attempt stores its result in \<open>*t\<close>; the loop stops at the
  first layout that parses. The second argument is \<open>*t\<close> and \<open>err\<close> before the attempt.
\<close>

fun parseTime_loop ::
  "('f, 't) golib \<Rightarrow> string \<Rightarrow> string list \<Rightarrow> 't \<times> error option \<Rightarrow> 't \<times> error option" where
  "parseTime_loop L s [] r = r"
| "parseTime_loop L s (f # fs) r =
     (case time_Parse L f s of
        (t1, None) \<Rightarrow> (t1, None)
      | (t1, Some e) \<Rightarrow> parseTime_loop L s fs (t1, Some ParseError))"

text \<open>\<open>parseTime\<close>; \<open>None\<close> is the panic of \<open>s[len(s)-2]\<close> on a text shorter than two bytes.\<close>

definition parseTime :: "('f, 't) golib \<Rightarrow> string \<Rightarrow> 't \<Rightarrow> ('t \<times> error option) option" where
  "parseTime L s t =
     (case byte_at s (int (length s) - 2) of
        None \<Rightarrow> None
      | Some c \<Rightarrow>
          Some (parseTime_loop L (if c = CHR ''.'' then s @ ''0'' else s) timeFormats (t, None)))"

definition store_time ::
  "'t pgTimestamp \<Rightarrow> ('t \<times> error option) option \<Rightarrow> 't pgTimestamp \<times> unit result" where
  "store_time k r =
     (case r of
        None \<Rightarrow> (k, Panic)
      | Some (t1, None) \<Rightarrow> (k\<lparr>ts_t := t1\<rparr>, Ok ())
      | Some (t1, Some e) \<Rightarrow> (k\<lparr>ts_t := t1\<rparr>, Err e))"

definition pgTimestamp_Scan ::
  "('f, 't) golib \<Rightarrow> 't pgTimestamp \<Rightarrow> ('f, 't) native \<Rightarrow> 't pgTimestamp \<times> unit result" where
  "pgTimestamp_Scan L k src =
     (if src = SNil then (k\<lparr>ts_valid := False\<rparr>, Ok ())
      else
        (let k1 = k\<lparr>ts_valid := True\<rparr> in
         case src of
           STime x \<Rightarrow> (k1\<lparr>ts_t := x\<rparr>, Ok ())
         | SString x \<Rightarrow> store_time k1 (parseTime L x (ts_t k1))
         | SBytes x \<Rightarrow> store_time k1 (parseTime L x (ts_t k1))
         | _ \<Rightarrow> (k1, Err TypeMismatch)))"

section \<open>Constructors of scalar values\<close>

definition newInt :: "int \<Rightarrow> ('f, 't) native \<Rightarrow> pgInteger \<times> unit result" where
  "newInt bs data = pgInteger_Scan \<lparr>int_n = 0, int_bs = bs, int_valid = False\<rparr> data"

definition Bool :: "('f, 't) native \<Rightarrow> pgBool \<times> unit result" where
  "Bool data = pgBool_Scan \<lparr>bool_b = False, bool_valid = False\<rparr> data"

definition Text :: "('f, 't) golib \<Rightarrow> ('f, 't) native \<Rightarrow> pgText \<times> unit result" where
  "Text L data = pgText_Scan L \<lparr>text_s = [], text_n = 0, text_p = False, text_valid = False\<rparr> data"

definition Bytea :: "('f, 't) native \<Rightarrow> pgBytea \<times> unit result" where
  "Bytea data = pgBytea_Scan \<lparr>bytea_b = [], bytea_valid = False\<rparr> data"

text \<open>
  The value a \<open>Valstructor\<close> returns for nil data: the fresh struct, on which \<open>Scan(nil)\<close>
  only clears \<open>valid\<close>. \<open>Row\<close> and \<open>Record\<close> fill \<open>vs\<close> with \<open>vk(nil)\<close> for each column.
\<close>

fun blank :: "('f, 't) golib \<Rightarrow> kind \<Rightarrow> ('f, 't) value" where
  "blank L (KInt bs) = VInteger \<lparr>int_n = 0, int_bs = bs, int_valid = False\<rparr>"
| "blank L (KNumeric prec scale) =
     VNumeric \<lparr>num_s = [], num_prec = prec, num_scale = scale, num_valid = False\<rparr>"
| "blank L (KEnum labels) = VEnum \<lparr>enum_s = [], enum_ls = labels, enum_valid = False\<rparr>"
| "blank L (KFloat bs) = VFloat \<lparr>float_n = float_zero L, float_bs = bs, float_valid = False\<rparr>"
| "blank L KBool = VBool \<lparr>bool_b = False, bool_valid = False\<rparr>"
| "blank L KText = VText \<lparr>text_s = [], text_n = 0, text_p = False, text_valid = False\<rparr>"
| "blank L (KVarChar n) = VText \<lparr>text_s = [], text_n = n, text_p = False, text_valid = False\<rparr>"
| "blank L (KChar n) = VText \<lparr>text_s = [], text_n = n, text_p = True, text_valid = False\<rparr>"
| "blank L KBytea = VBytea \<lparr>bytea_b = [], bytea_valid = False\<rparr>"
| "blank L KHStore = VHStore [] False"
| "blank L KTimestamp = VTimestamp \<lparr>ts_t = time_zero L, ts_tz = [], ts_valid = False\<rparr>"
| "blank L (KRow ks) = VRow (map (blank L) ks) False"
| "blank L (KRecord cols) = VRecord (map (\<lambda>c. blank L (snd c)) cols) cols False"
| "blank L (KArray el) = VArray [] el False"

section \<open>IsNull\<close>

fun IsNull :: "('f, 't) value \<Rightarrow> bool" where
  "IsNull (VInteger k) = (\<not> int_valid k)"
| "IsNull (VNumeric k) = (\<not> num_valid k)"
| "IsNull (VEnum k) = (\<not> enum_valid k)"
| "IsNull (VFloat k) = (\<not> float_valid k)"
| "IsNull (VBool k) = (\<not> bool_valid k)"
| "IsNull (VText k) = (\<not> text_valid k)"
| "IsNull (VBytea k) = (\<not> bytea_valid k)"
| "IsNull (VTimestamp k) = (\<not> ts_valid k)"
| "IsNull (VHStore m valid) = (\<not> valid)"
| "IsNull (VRow vs valid) = (\<not> valid)"
| "IsNull (VRecord vs cs valid) = (\<not> valid)"
| "IsNull (VArray vs el valid) = (\<not> valid)"

section \<open>bytes and String\<close>

definition RFC3339Nano :: string where
  "RFC3339Nano = ''2006-01-02T15:04:05.999999999Z07:00''"

text \<open>The type switches of \<open>rowBytes\<close> and \<open>pgArray.bytes\<close>: the children written bare.\<close>

definition row_bare :: "('f, 't) value \<Rightarrow> bool" where
  "row_bare child =
     (case child of
        VNumeric _ \<Rightarrow> True | VInteger _ \<Rightarrow> True | VFloat _ \<Rightarrow> True | VBool _ \<Rightarrow> True
      | _ \<Rightarrow> False)"

definition array_bare :: "('f, 't) value \<Rightarrow> bool" where
  "array_bare child =
     (case child of
        VNumeric _ \<Rightarrow> True | VInteger _ \<Rightarrow> True | VFloat _ \<Rightarrow> True | VBool _ \<Rightarrow> True
      | VArray _ _ _ \<Rightarrow> True | VTimestamp _ \<Rightarrow> True
      | _ \<Rightarrow> False)"

text \<open>\<open>bytes.Join(buf, sep)\<close>.\<close>

fun bytes_Join :: "string list \<Rightarrow> string \<Rightarrow> string" where
  "bytes_Join [] sep = []"
| "bytes_Join [x] sep = x"
| "bytes_Join (x # y # rest) sep = x @ sep @ bytes_Join (y # rest) sep"

text \<open>
  \<open>bytes\<close> and \<open>String\<close> of every kind. \<open>row_children\<close> and \<open>array_children\<close> are the loops
  over the children (\<open>i != last\<close> holds when children remain); \<open>hstore_entries\<close> is the loop
  of \<open>pgHStore.bytes\<close>, where \<open>%s\<close> prints a value through its \<open>String\<close> method.
\<close>

function Value_bytes :: "('f, 't) golib \<Rightarrow> ('f, 't) value \<Rightarrow> string result"
  and Value_String :: "('f, 't) golib \<Rightarrow> ('f, 't) value \<Rightarrow> string"
  and rowBytes :: "('f, 't) golib \<Rightarrow> bool \<Rightarrow> ('f, 't) value list \<Rightarrow> string result"
  and row_children :: "('f, 't) golib \<Rightarrow> ('f, 't) value list \<Rightarrow> string result"
  and pgArray_bytes :: "('f, 't) golib \<Rightarrow> bool \<Rightarrow> ('f, 't) value list \<Rightarrow> string result"
  and array_children :: "('f, 't) golib \<Rightarrow> ('f, 't) value list \<Rightarrow> string result"
  and pgHStore_bytes :: "('f, 't) golib \<Rightarrow> (string \<times> ('f, 't) value) list \<Rightarrow> string result"
  and hstore_entries :: "('f, 't) golib \<Rightarrow> (string \<times> ('f, 't) value) list \<Rightarrow> string list"
where
  "Value_bytes L (VInteger k) = Ok (if \<not> int_valid k then nullb else fmt_d (int_n k))"
| "Value_bytes L (VNumeric k) = Ok (if \<not> num_valid k then nullb else num_s k)"
| "Value_bytes L (VEnum k) = Ok (if \<not> enum_valid k then nullb else enum_s k)"
| "Value_bytes L (VFloat k) =
     Ok (if \<not> float_valid k then nullb else Value_String L (VFloat k))"
| "Value_bytes L (VBool k) = Ok (if \<not> bool_valid k then nullb else Value_String L (VBool k))"
| "Value_bytes L (VText k) = Ok (if \<not> text_valid k then nullb else text_s k)"
| "Value_bytes L (VBytea k) =
     Ok (if \<not> bytea_valid k then nullb else backslash # CHR ''x'' # fmt_x (bytea_b k))"
| "Value_bytes L (VTimestamp k) =
     Ok (if \<not> ts_valid k then nullb else time_Format L (ts_t k) RFC3339Nano)"
| "Value_bytes L (VHStore m valid) = pgHStore_bytes L m"
| "Value_bytes L (VRow vs valid) = rowBytes L valid vs"
| "Value_bytes L (VRecord vs cs valid) = rowBytes L valid vs"
| "Value_bytes L (VArray vs el valid) = pgArray_bytes L valid vs"
| "Value_String L (VInteger k) = (if \<not> int_valid k then [] else fmt_d (int_n k))"
| "Value_String L (VNumeric k) = (if \<not> num_valid k then [] else num_s k)"
| "Value_String L (VEnum k) = (if \<not> enum_valid k then [] else enum_s k)"
| "Value_String L (VFloat k) =
     (if \<not> float_valid k then [] else strconv_FormatFloat L (float_n k) CHR ''f'' (- 1) 32)"
| "Value_String L (VBool k) =
     (if \<not> bool_valid k then [] else if bool_b k then ''t'' else ''f'')"
| "Value_String L (VText k) = (if \<not> text_valid k then [] else text_s k)"
| "Value_String L (VBytea k) = (if \<not> bytea_valid k then [] else bytea_b k)"
| "Value_String L (VTimestamp k) =
     (if \<not> ts_valid k then [] else time_Format L (ts_t k) RFC3339Nano)"
| "Value_String L (VHStore m valid) =
     (if \<not> valid then [] else case pgHStore_bytes L m of Ok s \<Rightarrow> s | _ \<Rightarrow> [])"
| "Value_String L (VRow vs valid) =
     (if \<not> valid then [] else case rowBytes L valid vs of Ok s \<Rightarrow> s | _ \<Rightarrow> [])"
| "Value_String L (VRecord vs cs valid) =
     (if \<not> valid then [] else case rowBytes L valid vs of Ok s \<Rightarrow> s | _ \<Rightarrow> [])"
| "Value_String L (VArray vs el valid) =
     (if \<not> valid then [] else case pgArray_bytes L valid vs of Ok s \<Rightarrow> s | _ \<Rightarrow> [])"
| "rowBytes L valid vs =
     (if \<not> valid then Ok nullb
      else case row_children L vs of
        Ok b \<Rightarrow> Ok (''('' @ b @ '')'')
      | Err e \<Rightarrow> Err e
      | Panic \<Rightarrow> Panic)"
| "row_children L [] = Ok []"
| "row_children L (child # rest) =
     (case Value_bytes L child of
        Err e \<Rightarrow> Err e
      | Panic \<Rightarrow> Panic
      | Ok cb \<Rightarrow>
          (case row_children L rest of
             Err e \<Rightarrow> Err e
           | Panic \<Rightarrow> Panic
           | Ok b \<Rightarrow>
               Ok ((if row_bare child then cb else [dquote] @ escape cb 2 @ [dquote])
                   @ (if rest \<noteq> [] then '','' else []) @ b)))"
| "pgArray_bytes L valid vs =
     (if \<not> valid then Ok nullb
      else case array_children L vs of
        Ok b \<Rightarrow> Ok (''{'' @ b @ ''}'')
      | Err e \<Rightarrow> Err e
      | Panic \<Rightarrow> Panic)"
| "array_children L [] = Ok []"
| "array_children L (child # rest) =
     (case Value_bytes L child of
        Err e \<Rightarrow> Err e
      | Panic \<Rightarrow> Panic
      | Ok cb \<Rightarrow>
          (case array_children L rest of
             Err e \<Rightarrow> Err e
           | Panic \<Rightarrow> Panic
           | Ok b \<Rightarrow>
               Ok ((if array_bare child then cb else [dquote] @ escape cb 1 @ [dquote])
                   @ (if rest \<noteq> [] then '','' else []) @ b)))"
| "pgHStore_bytes L m = Ok (bytes_Join (hstore_entries L m) '','')"
| "hstore_entries L [] = []"
| "hstore_entries L ((key, val) # rest) =
     ([dquote] @ key @ [dquote] @ '' => '' @ [dquote] @ Value_String L val @ [dquote])
     # hstore_entries L rest"
  by pat_completeness auto
termination
  by (relation "measure (\<lambda>x. case x of
         Inl (Inl (Inl (L, v))) \<Rightarrow> 4 * size v + 1
       | Inl (Inl (Inr (L, v))) \<Rightarrow> 4 * size v
       | Inl (Inr (Inl (L, valid, vs))) \<Rightarrow> 4 * size_list size vs + 3
       | Inl (Inr (Inr (L, vs))) \<Rightarrow> 4 * size_list size vs + 2
       | Inr (Inl (Inl (L, valid, vs))) \<Rightarrow> 4 * size_list size vs + 3
       | Inr (Inl (Inr (L, vs))) \<Rightarrow> 4 * size_list size vs + 2
       | Inr (Inr (Inl (L, m))) \<Rightarrow> 4 * size_list (size_prod (\<lambda>_. 0) size) m + 3
       | Inr (Inr (Inr (L, m))) \<Rightarrow> 4 * size_list (size_prod (\<lambda>_. 0) size) m + 2)")
    auto

section \<open>Val\<close>

text \<open>
  \<open>Val\<close> returns the payload as an \<open>interface{}\<close>, nil for NULL. \<open>pgHStore.Val\<close> asserts
  that each child's \<open>Val\<close> is a string and panics when it is not.
\<close>

function Value_Val :: "('f, 't) value \<Rightarrow> ('f, 't) native result"
  and Val_list :: "('f, 't) value list \<Rightarrow> ('f, 't) native list result"
  and Val_map :: "(string \<times> ('f, 't) value) list \<Rightarrow> (string \<times> string) list result"
where
  "Value_Val (VInteger k) = Ok (if \<not> int_valid k then SNil else SInt64 (int_n k))"
| "Value_Val (VNumeric k) = Ok (if \<not> num_valid k then SNil else SString (num_s k))"
| "Value_Val (VEnum k) = Ok (if \<not> enum_valid k then SNil else SString (enum_s k))"
| "Value_Val (VFloat k) = Ok (if \<not> float_valid k then SNil else SFloat64 (float_n k))"
| "Value_Val (VBool k) = Ok (if \<not> bool_valid k then SNil else SBool (bool_b k))"
| "Value_Val (VText k) = Ok (if \<not> text_valid k then SNil else SString (text_s k))"
| "Value_Val (VBytea k) = Ok (if \<not> bytea_valid k then SNil else SBytes (bytea_b k))"
| "Value_Val (VTimestamp k) = Ok (if \<not> ts_valid k then SNil else STime (ts_t k))"
| "Value_Val (VHStore m valid) =
     (if \<not> valid then Ok SNil
      else (case Val_map m of Ok vals \<Rightarrow> Ok (SMap vals) | Err e \<Rightarrow> Err e | Panic \<Rightarrow> Panic))"
| "Value_Val (VRow vs valid) =
     (if \<not> valid then Ok SNil
      else (case Val_list vs of Ok vals \<Rightarrow> Ok (SList vals) | Err e \<Rightarrow> Err e | Panic \<Rightarrow> Panic))"
| "Value_Val (VRecord vs cs valid) =
     (if \<not> valid then Ok SNil
      else (case Val_list vs of Ok vals \<Rightarrow> Ok (SList vals) | Err e \<Rightarrow> Err e | Panic \<Rightarrow> Panic))"
| "Value_Val (VArray vs el valid) =
     (if \<not> valid then Ok SNil
      else (case Val_list vs of Ok vals \<Rightarrow> Ok (SList vals) | Err e \<Rightarrow> Err e | Panic \<Rightarrow> Panic))"
| "Val_list [] = Ok []"
| "Val_list (v # rest) =
     (case Value_Val v of
        Err e \<Rightarrow> Err e
      | Panic \<Rightarrow> Panic
      | Ok x \<Rightarrow>
          (case Val_list rest of Err e \<Rightarrow> Err e | Panic \<Rightarrow> Panic | Ok xs \<Rightarrow> Ok (x # xs)))"
| "Val_map [] = Ok []"
| "Val_map ((key, v) # rest) =
     (case Value_Val v of
        Ok (SString x) \<Rightarrow>
          (case Val_map rest of
             Err e \<Rightarrow> Err e
           | Panic \<Rightarrow> Panic
           | Ok vals \<Rightarrow> Ok (AList.update key x vals))
      | Err e \<Rightarrow> Err e
      | _ \<Rightarrow> Panic)"
  by pat_completeness auto
termination
  by (relation "measure (\<lambda>x. case x of
         Inl v \<Rightarrow> size v
       | Inr (Inl vs) \<Rightarrow> size_list size vs
       | Inr (Inr m) \<Rightarrow> size_list (size_prod (\<lambda>_. 0) size) m)")
    auto

section \<open>Scan of the key-value map\<close>

text \<open>The loop \<open>for key, val := range keyvals\<close> of \<open>pgHStore.Scan\<close>.\<close>

fun hstore_fill ::
  "('f, 't) golib \<Rightarrow> (string \<times> string) list \<Rightarrow> (string \<times> ('f, 't) value) list
     \<Rightarrow> (string \<times> ('f, 't) value) list \<times> unit result" where
  "hstore_fill L [] m = (m, Ok ())"
| "hstore_fill L ((key, val) # rest) m =
     (case Text L (SString val) of
        (vx, Ok u) \<Rightarrow> hstore_fill L rest (AList.update key (VText vx) m)
      | (vx, Err e) \<Rightarrow> (m, Err e)
      | (vx, Panic) \<Rightarrow> (m, Panic))"

definition pgHStore_Scan ::
  "('f, 't) golib \<Rightarrow> (string \<times> ('f, 't) value) list \<Rightarrow> bool \<Rightarrow> ('f, 't) native
     \<Rightarrow> ('f, 't) value \<times> unit result" where
  "pgHStore_Scan L m valid src =
     (if src = SNil then (VHStore [] False, Ok ())
      else
        (case src of
           SBytes s \<Rightarrow>
             (case parseHStore s of
                Err e \<Rightarrow> (VHStore [] True, Err e)
              | Panic \<Rightarrow> (VHStore [] True, Panic)
              | Ok keyvals \<Rightarrow> (case hstore_fill L keyvals [] of (m1, r) \<Rightarrow> (VHStore m1 True, r)))
         | SMap keyvals \<Rightarrow> (case hstore_fill L keyvals [] of (m1, r) \<Rightarrow> (VHStore m1 True, r))
         | _ \<Rightarrow> (VHStore [] True, Err TypeMismatch)))"

section \<open>Scan of rows, records and arrays\<close>

text \<open>
  What \<open>rowScanner\<close> scans its \<open>n\<close> destinations from: the elements of a \<open>[]interface{}\<close>,
  or the parts \<open>split\<close> finds in the bytes. A nil source is the explicit panic.
\<close>

definition row_sources :: "('f, 't) native \<Rightarrow> nat \<Rightarrow> ('f, 't) native list result" where
  "row_sources src n =
     (case src of
        SNil \<Rightarrow> Panic
      | SList srcs \<Rightarrow> (if n \<noteq> length srcs then Err ArityError else Ok srcs)
      | _ \<Rightarrow>
          (case srcToBytes src of
             Err e \<Rightarrow> Err e
           | Panic \<Rightarrow> Panic
           | Ok b \<Rightarrow>
               (case split b of
                  Err e \<Rightarrow> Err e
                | Panic \<Rightarrow> Panic
                | Ok parts \<Rightarrow>
                    (if length parts \<noteq> n then Err ArityError else Ok (map SBytes parts)))))"

text \<open>What \<open>pgArray.Scan\<close> appends, one \<open>Append\<close> for each.\<close>

definition array_sources :: "('f, 't) native \<Rightarrow> ('f, 't) native list result" where
  "array_sources src =
     (case src of
        SList x \<Rightarrow> Ok x
      | _ \<Rightarrow>
          (case srcToBytes src of
             Err e \<Rightarrow> Err e
           | Panic \<Rightarrow> Panic
           | Ok b \<Rightarrow>
               (case split b of
                  Err e \<Rightarrow> Err e
                | Panic \<Rightarrow> Panic
                | Ok parts \<Rightarrow> Ok (map SBytes parts))))"

text \<open>The case \<open>Value\<close> of the type switch of \<open>pgArray.Append\<close>.\<close>

definition as_Value :: "('f, 't) native \<Rightarrow> ('f, 't) value option" where
  "as_Value src = (case src of SValue v \<Rightarrow> Some v | _ \<Rightarrow> None)"

text \<open>Measures for the termination of \<open>Scan\<close>: an array counts its element kind.\<close>

fun ksize :: "kind \<Rightarrow> nat" where
  "ksize (KRow ks) = 1 + sum_list (map ksize ks)"
| "ksize (KRecord cols) = 1 + sum_list (map (\<lambda>c. ksize (snd c)) cols)"
| "ksize (KArray el) = 1 + ksize el"
| "ksize _ = 1"

fun vsize :: "('f, 't) value \<Rightarrow> nat" where
  "vsize (VRow vs valid) = 1 + sum_list (map vsize vs)"
| "vsize (VRecord vs cs valid) = 1 + sum_list (map vsize vs)"
| "vsize (VArray vs el valid) = 1 + ksize el"
| "vsize _ = 1"

text \<open>
  \<open>Scan\<close> of every kind, with \<open>rowScanner\<close>, its loop \<open>scan_dests\<close> over the destinations
  (it stops at the first error and leaves the later destinations as they were),
  \<open>pgArray.Append\<close> on the fields \<open>vs\<close> and \<open>valid\<close> of the array, and the loop
  \<open>append_all\<close> of \<open>pgArray.Scan\<close>. \<open>k.el(nil)\<close> is \<open>blank L el\<close>.
\<close>

function Value_Scan ::
    "('f, 't) golib \<Rightarrow> ('f, 't) value \<Rightarrow> ('f, 't) native \<Rightarrow> ('f, 't) value \<times> unit result"
  and rowScanner ::
    "('f, 't) golib \<Rightarrow> ('f, 't) native \<Rightarrow> ('f, 't) value list
       \<Rightarrow> ('f, 't) value list \<times> unit result"
  and scan_dests ::
    "('f, 't) golib \<Rightarrow> ('f, 't) value list \<Rightarrow> ('f, 't) native list
       \<Rightarrow> ('f, 't) value list \<times> unit result"
  and pgArray_Append ::
    "('f, 't) golib \<Rightarrow> kind \<Rightarrow> ('f, 't) value list \<Rightarrow> bool \<Rightarrow> ('f, 't) native
       \<Rightarrow> (('f, 't) value list \<times> bool) \<times> unit result"
  and append_all ::
    "('f, 't) golib \<Rightarrow> kind \<Rightarrow> ('f, 't) value list \<Rightarrow> ('f, 't) native list
       \<Rightarrow> ('f, 't) value list \<times> unit result"
where
  "Value_Scan L (VInteger k) src = (case pgInteger_Scan k src of (k1, r) \<Rightarrow> (VInteger k1, r))"
| "Value_Scan L (VNumeric k) src = (case pgNumeric_Scan L k src of (k1, r) \<Rightarrow> (VNumeric k1, r))"
| "Value_Scan L (VEnum k) src = (case pgEnum_Scan k src of (k1, r) \<Rightarrow> (VEnum k1, r))"
| "Value_Scan L (VFloat k) src = (case pgFloat_Scan L k src of (k1, r) \<Rightarrow> (VFloat k1, r))"
| "Value_Scan L (VBool k) src = (case pgBool_Scan k src of (k1, r) \<Rightarrow> (VBool k1, r))"
| "Value_Scan L (VText k) src = (case pgText_Scan L k src of (k1, r) \<Rightarrow> (VText k1, r))"
| "Value_Scan L (VBytea k) src = (case pgBytea_Scan k src of (k1, r) \<Rightarrow> (VBytea k1, r))"
| "Value_Scan L (VTimestamp k) src =
     (case pgTimestamp_Scan L k src of (k1, r) \<Rightarrow> (VTimestamp k1, r))"
| "Value_Scan L (VHStore m valid) src = pgHStore_Scan L m valid src"
| "Value_Scan L (VRow vs valid) src =
     (if src = SNil then (VRow vs False, Ok ())
      else (case rowScanner L src vs of (vs1, r) \<Rightarrow> (VRow vs1 True, r)))"
| "Value_Scan L (VRecord vs cs valid) src =
     (if src = SNil then (VRecord vs cs False, Ok ())
      else (case rowScanner L src vs of (vs1, r) \<Rightarrow> (VRecord vs1 cs True, r)))"
| "Value_Scan L (VArray vs el valid) src =
     (if src = SNil then (VArray [] el False, Ok ())
      else
        (case array_sources src of
           Err e \<Rightarrow> (VArray [] el True, Err e)
         | Panic \<Rightarrow> (VArray [] el True, Panic)
         | Ok srcs \<Rightarrow> (case append_all L el [] srcs of (vs1, r) \<Rightarrow> (VArray vs1 el True, r))))"
| "rowScanner L src dests =
     (case row_sources src (length dests) of
        Err e \<Rightarrow> (dests, Err e)
      | Panic \<Rightarrow> (dests, Panic)
      | Ok srcs \<Rightarrow> scan_dests L dests srcs)"
| "scan_dests L [] srcs = ([], Ok ())"
| "scan_dests L (vx # rest) [] = (vx # rest, Panic)"
| "scan_dests L (vx # rest) (sx # srcs) =
     (case Value_Scan L vx sx of
        (vx1, Ok u) \<Rightarrow> (case scan_dests L rest srcs of (rest1, r) \<Rightarrow> (vx1 # rest1, r))
      | (vx1, Err e) \<Rightarrow> (vx1 # rest, Err e)
      | (vx1, Panic) \<Rightarrow> (vx1 # rest, Panic))"
| "pgArray_Append L el vs valid src =
     (case as_Value src of
        Some v \<Rightarrow> ((vs @ [v], True), Ok ())
      | None \<Rightarrow>
          (case Value_Scan L (blank L el) src of
             (vx, Ok u) \<Rightarrow> ((vs @ [vx], True), Ok ())
           | (vx, Err e) \<Rightarrow> ((vs, valid), Err e)
           | (vx, Panic) \<Rightarrow> ((vs, valid), Panic)))"
| "append_all L el vs [] = (vs, Ok ())"
| "append_all L el vs (d # ds) =
     (case pgArray_Append L el vs True d of
        ((vs1, valid1), Ok u) \<Rightarrow> append_all L el vs1 ds
      | ((vs1, valid1), Err e) \<Rightarrow> (vs1, Err e)
      | ((vs1, valid1), Panic) \<Rightarrow> (vs1, Panic))"
  by pat_completeness auto

section \<open>Constructors and accessors of the container values\<close>

text \<open>\<open>HStore(data)\<close>: \<open>k := &pgHStore{}\<close>, then \<open>k.Scan(data)\<close>.\<close>

definition HStore :: "('f, 't) golib \<Rightarrow> ('f, 't) native \<Rightarrow> ('f, 't) value \<times> unit result" where
  "HStore L data = Value_Scan L (VHStore [] False) data"

text \<open>\<open>Row(ks...)(data)\<close>: a blank value for each column, then \<open>k.Scan(data)\<close>.\<close>

definition Row :: "('f, 't) golib \<Rightarrow> kind list \<Rightarrow> ('f, 't) native \<Rightarrow> ('f, 't) value \<times> unit result" where
  "Row L ks data = Value_Scan L (VRow (map (blank L) ks) False) data"

text \<open>\<open>Values()\<close> of rows, records and arrays; \<open>Map()\<close> of a key-value map.\<close>

fun Values :: "('f, 't) value \<Rightarrow> ('f, 't) value list" where
  "Values (VRow vs valid) = vs"
| "Values (VRecord vs cs valid) = vs"
| "Values (VArray vs el valid) = vs"
| "Values _ = []"

fun Map :: "('f, 't) value \<Rightarrow> (string \<times> ('f, 't) value) list" where
  "Map (VHStore m valid) = m"
| "Map _ = []"

text \<open>
  \<open>pgRecord.ValueBy\<close>: the first column of that name. \<open>col_index\<close> is the loop over
  \<open>k.cs\<close>; the result \<open>Ok None\<close> is the nil \<open>Value\<close>, and \<open>k.vs[i]\<close> panics out of range.
\<close>

fun col_index :: "(string \<times> kind) list \<Rightarrow> string \<Rightarrow> nat \<Rightarrow> nat option" where
  "col_index [] name i = None"
| "col_index (c # cs) name i = (if fst c = name then Some i else col_index cs name (i + 1))"

definition pgRecord_ValueBy ::
  "('f, 't) value list \<Rightarrow> (string \<times> kind) list \<Rightarrow> string \<Rightarrow> ('f, 't) value option result" where
  "pgRecord_ValueBy vs cs name =
     (case col_index cs name 0 of
        None \<Rightarrow> Ok None
      | Some i \<Rightarrow> (if i < length vs then Ok (Some (vs ! i)) else Panic))"

definition pgRecord_Get ::
  "('f, 't) value list \<Rightarrow> (string \<times> kind) list \<Rightarrow> string \<Rightarrow> ('f, 't) native result" where
  "pgRecord_Get vs cs name =
     (case pgRecord_ValueBy vs cs name of
        Ok None \<Rightarrow> Panic
      | Ok (Some v) \<Rightarrow> Value_Val v
      | Err e \<Rightarrow> Err e
      | Panic \<Rightarrow> Panic)"

text \<open>\<open>pgRecord.Set\<close> scans into the child that \<open>ValueBy\<close> points to.\<close>

definition pgRecord_Set ::
  "('f, 't) golib \<Rightarrow> ('f, 't) value list \<Rightarrow> (string \<times> kind) list \<Rightarrow> bool \<Rightarrow> string
     \<Rightarrow> ('f, 't) native \<Rightarrow> ('f, 't) value \<times> unit result" where
  "pgRecord_Set L vs cs valid name src =
     (case col_index cs name 0 of
        None \<Rightarrow> (VRecord vs cs valid, Err NotFound)
      | Some i \<Rightarrow>
          (if i < length vs
           then (case Value_Scan L (vs ! i) src of (v1, r) \<Rightarrow> (VRecord (vs[i := v1]) cs valid, r))
           else (VRecord vs cs valid, Panic)))"

text \<open>
  \<open>pgHStore.ValueBy\<close> returns the nil \<open>Value\<close> (\<open>None\<close>) for a missing key; \<open>Get\<close> and
  \<open>Set\<close> call a method on what \<open>ValueBy\<close> returns, which panics on nil.
\<close>

definition pgHStore_ValueBy ::
  "(string \<times> ('f, 't) value) list \<Rightarrow> string \<Rightarrow> ('f, 't) value option" where
  "pgHStore_ValueBy m name = map_of m name"

definition pgHStore_Get ::
  "(string \<times> ('f, 't) value) list \<Rightarrow> string \<Rightarrow> ('f, 't) native result" where
  "pgHStore_Get m name =
     (case pgHStore_ValueBy m name of
        None \<Rightarrow> Panic
      | Some v \<Rightarrow> Value_Val v)"

definition pgHStore_Set ::
  "('f, 't) golib \<Rightarrow> (string \<times> ('f, 't) value) list \<Rightarrow> bool \<Rightarrow> string
     \<Rightarrow> ('f, 't) native \<Rightarrow> ('f, 't) value \<times> unit result" where
  "pgHStore_Set L m valid name src =
     (case pgHStore_ValueBy m name of
        None \<Rightarrow> (VHStore m valid, Panic)
      | Some v \<Rightarrow>
          (case Value_Scan L v src of (v1, r) \<Rightarrow> (VHStore (AList.update name v1 m) valid, r)))"

section \<open>Notions used by the properties\<close>

text \<open>The values of the scalar kinds.\<close>

fun is_scalar :: "('f, 't) value \<Rightarrow> bool" where
  "is_scalar (VHStore m valid) = False"
| "is_scalar (VRow vs valid) = False"
| "is_scalar (VRecord vs cs valid) = False"
| "is_scalar (VArray vs el valid) = False"
| "is_scalar _ = True"


text \<open>
  Round-trip stability of a source \<open>v\<close> for a value \<open>k\<close>: the decode of \<open>v\<close> into \<open>k\<close>
  succeeds, its result encodes to bytes, and the decode of these bytes into \<open>k\<close>
  succeeds with the same result.
\<close>

definition roundtrip_stable ::
  "('f, 't) golib \<Rightarrow> ('f, 't) value \<Rightarrow> ('f, 't) native \<Rightarrow> bool" where
  "roundtrip_stable L k v =
     (case Value_Scan L k v of
        (k1, Ok u) \<Rightarrow>
          (case Value_bytes L k1 of
             Ok b \<Rightarrow> Value_Scan L k (SBytes b) = (k1, Ok ())
           | Err e \<Rightarrow> False
           | Panic \<Rightarrow> False)
      | (k1, Err e) \<Rightarrow> False
      | (k1, Panic) \<Rightarrow> False)"



text \<open>
  A library for evaluating examples whose sources hold neither floating-point numbers
  nor times: no text parses as a float or as a time, and the runes of a text are its
  bytes, as they are for ASCII text.
\<close>

definition example_lib :: "(unit, unit) golib" where
  "example_lib =
     \<lparr>float_zero = (),
      strconv_ParseFloat = (\<lambda>s bitSize. ((), Some ParseError)),
      strconv_FormatFloat = (\<lambda>x fmt prec bitSize. []),
      gt_MaxFloat32 = (\<lambda>x. False),
      time_zero = (),
      time_Parse = (\<lambda>layout v. ((), Some ParseError)),
      time_Format = (\<lambda>t layout. []),
      utf8_RuneCountInString = length\<rparr>"

section \<open>A standard library for whole numbers and civil times\<close>

text \<open>
  An instance of the library for evaluating examples with floats and times. It covers
  a part of what Go's library does, and says what Go says on that part:
  \<^item> a \<open>float64\<close> is a whole number of magnitude below \<open>2^25\<close>, held as an \<open>int\<close>;
    \<open>strconv.ParseFloat\<close> reads decimal whole numbers only (every other text is a
    syntax error here), and \<open>strconv.FormatFloat\<close> is the format \<open>'f'\<close>;
  \<open>bitSize\<close> 32 rounds to the nearest \<open>float32\<close>, ties to the even mantissa;
  \<^item> a \<open>time.Time\<close> is its civil date and time of day with the offset of its zone in
    seconds east of UTC; \<open>time.Parse\<close> knows the six layouts of \<open>timeFormats\<close> (every
    other layout is an error here) and \<open>Time.Format\<close> the layout \<open>time.RFC3339Nano\<close>;
  \<^item> the runes of a text are its bytes, as they are for ASCII text.
\<close>

subsection \<open>Whole-number floats\<close>






subsection \<open>Civil times\<close>

record civil =
  c_year :: int
  c_month :: int
  c_day :: int
  c_hour :: int
  c_min :: int
  c_sec :: int
  c_nsec :: int
  c_offset :: int

text \<open>The zero \<open>Time\<close> is January 1 of the year 1, 00:00:00 UTC.\<close>

definition civil_zero :: civil where
  "civil_zero =
     \<lparr>c_year = 1, c_month = 1, c_day = 1, c_hour = 0, c_min = 0, c_sec = 0, c_nsec = 0,
      c_offset = 0\<rparr>"
















text \<open>The time 2006-01-02 15:04:05 UTC.\<close>

definition reference_time :: civil where
  "reference_time =
     \<lparr>c_year = 2006, c_month = 1, c_day = 2, c_hour = 15, c_min = 4, c_sec = 5, c_nsec = 0,
      c_offset = 0\<rparr>"

section \<open>The literals of the examples\<close>

text \<open>The row literal \<^verbatim>\<open>(1,"jeff \"the\" bob",)\<close> and the key-value text
  \<^verbatim>\<open>"key" => "value1", "k2" => NULL\<close>.\<close>

definition row_literal :: string where
  "row_literal =
     ''(1,'' @ [dquote] @ ''jeff '' @ [backslash, dquote] @ ''the'' @ [backslash, dquote]
       @ '' bob'' @ [dquote] @ '',)''"

definition hstore_literal :: string where
  "hstore_literal =
     [dquote] @ ''key'' @ [dquote] @ '' => '' @ [dquote] @ ''value1'' @ [dquote] @ '', ''
       @ [dquote] @ ''k2'' @ [dquote] @ '' => NULL''"

section \<open>Termination of Scan\<close>

lemma vsize_blank: "vsize (blank L k) = ksize k"
  by (induction L k rule: blank.induct) (simp_all add: comp_def cong: map_cong)

lemma vsize_pos: "0 < vsize v"
  by (cases v) simp_all

termination Value_Scan
  by (relation "inv_image (less_than <*lex*> less_than) (\<lambda>x. case x of
         Inl (Inl (L, v, src)) \<Rightarrow> (4 * vsize v, 0)
       | Inl (Inr (L, src, dests)) \<Rightarrow> (4 * sum_list (map vsize dests) + 3, 0)
       | Inr (Inl (L, dests, srcs)) \<Rightarrow> (4 * sum_list (map vsize dests) + 2, 0)
       | Inr (Inr (Inl (L, el, vs, valid, src))) \<Rightarrow> (4 * ksize el + 1, 0)
       | Inr (Inr (Inr (L, el, vs, srcs))) \<Rightarrow> (4 * ksize el + 2, length srcs))")
    (auto simp: vsize_blank vsize_pos)

section \<open>Evaluations shared by the properties\<close>

lemma split_row_literal:
  "split row_literal =
     Ok [''1'', ''jeff '' @ [backslash], ''the'' @ [backslash, dquote] @ '' bob'' @ [dquote]]"
  by code_simp

lemma parseHStore_literal: "parseHStore hstore_literal = Ok [(''key'', ''value1'')]"
  by code_simp



lemma digit_chars:
  "digit_char 0 = CHR ''0''" "digit_char 2 = CHR ''2''"
  "digit_char 3 = CHR ''3''" "digit_char 4 = CHR ''4''" "digit_char 5 = CHR ''5''"
  "digit_char 6 = CHR ''6''" "digit_char 7 = CHR ''7''" "digit_char 8 = CHR ''8''"
  "digit_char 9 = CHR ''9''"
  by code_simp+

lemma is_digit_chars:
  "is_digit CHR ''0''" "is_digit CHR ''1''" "is_digit CHR ''2''" "is_digit CHR ''3''"
  "is_digit CHR ''4''" "is_digit CHR ''5''" "is_digit CHR ''6''" "is_digit CHR ''7''"
  "is_digit CHR ''8''" "is_digit CHR ''9''"
  by code_simp+

lemma not_digit_a: "\<not> is_digit CHR ''a''"
  by code_simp

lemma ParseInt_1: "strconv_ParseInt ''1'' 32 = (1, None)"
  by (simp add: strconv_ParseInt_def is_digit_chars Let_def)

lemma ParseInt_abc: "strconv_ParseInt ''abc'' 16 = (0, Some ParseError)"
  by (simp add: strconv_ParseInt_def not_digit_a Let_def)

lemma HStore_literal_scan:
  "HStore L (SBytes hstore_literal) =
     (VHStore [(''key'', VText \<lparr>text_s = ''value1'', text_n = 0, text_p = False,
                                text_valid = True\<rparr>)] True, Ok ())"
  by (simp add: HStore_def pgHStore_Scan_def parseHStore_literal Text_def pgText_Scan_def
      text_fit_def)

section \<open>Properties of split\<close>

text \<open>
  C2 (the claim fails on the code). The claim: an input that opens with \<open>{\<close> or \<open>(\<close> and
  does not end with the matching closing delimiter makes \<open>split\<close> return a
  MalformedLiteral error, wherever the scanner is at the end of the input. The code
  checks the last byte only while it is inside an element: the case \<open>a == -1\<close> of the
  \<open>switch\<close> comes before the end-of-input case. The unclosed inputs \<^verbatim>\<open>{1,2\<close>, \<^verbatim>\<open>{1, \<close>
  and \<^verbatim>\<open>{\<close> are accepted, and \<^verbatim>\<open>{1,2\<close> loses its last element.
\<close>

theorem split_unclosed_accepted:
  "split ''{1,2'' = Ok [''1''] \<and> split ''{1, '' = Ok [''1''] \<and> split ''{'' = Ok []
   \<and> split ''(1,2'' = Ok [''1'']"
  by code_simp

text \<open>Inside an element the check does run: \<^verbatim>\<open>{1,2 \<close> and \<^verbatim>\<open>{1,\<close> are refused.\<close>

lemma split_unclosed_refused:
  "split ''{1,2 '' = Err MalformedLiteral \<and> split ''{1,'' = Err MalformedLiteral"
  by code_simp

section \<open>Properties of rows\<close>

text \<open>
  The decode of the row literal \<^verbatim>\<open>(1,"jeff \"the\" bob",)\<close> into slots (Integer, Text, Text),
  whatever the library of floats and times.
\<close>

lemma row_literal_scan:
  "Row L [Integer, KText, KText] (SBytes row_literal) =
     (VRow [VInteger \<lparr>int_n = 1, int_bs = 32, int_valid = True\<rparr>,
            VText \<lparr>text_s = ''jeff '' @ [backslash], text_n = 0, text_p = False,
                   text_valid = True\<rparr>,
            VText \<lparr>text_s = ''the'' @ [backslash, dquote] @ '' bob'' @ [dquote], text_n = 0,
                   text_p = False, text_valid = True\<rparr>] True,
      Ok ())"
  by (simp add: Row_def row_sources_def srcToBytes_def split_row_literal pgInteger_Scan_def
      is_go_int_def store_int_def ParseInt_1 pgText_Scan_def text_fit_def)

text \<open>
  C3, as stated, is false: after the decode of the row literal
  \<^verbatim>\<open>(1,"jeff \"the\" bob",)\<close> into slots (Integer, Text, Text) the third slot is
  not NULL.
\<close>

theorem row_literal_counterexample:
  "\<not> IsNull (Values (fst (Row example_lib [Integer, KText, KText] (SBytes row_literal))) ! 2)"
  by (simp add: row_literal_scan)

text \<open>
  C3 (amended). The decode of the row literal \<^verbatim>\<open>(1,"jeff \"the\" bob",)\<close> into slots
  (Integer, Text, Text) succeeds; the first slot holds the integer 1, and no slot is
  NULL: in row mode a backslash does not escape a quote, so the second slot holds the
  text \<^verbatim>\<open>jeff \\<close> and the third the text \<^verbatim>\<open>the\" bob"\<close>.
\<close>

theorem row_literal_decode:
  "Row L [Integer, KText, KText] (SBytes row_literal) =
     (VRow [VInteger \<lparr>int_n = 1, int_bs = 32, int_valid = True\<rparr>,
            VText \<lparr>text_s = ''jeff '' @ [backslash], text_n = 0, text_p = False,
                   text_valid = True\<rparr>,
            VText \<lparr>text_s = ''the'' @ [backslash, dquote] @ '' bob'' @ [dquote], text_n = 0,
                   text_p = False, text_valid = True\<rparr>] True,
      Ok ())"
  by (rule row_literal_scan)

text \<open>
  With the quotes doubled, as row mode escapes them, \<open>split\<close> finds two parts (the empty
  last column yields none) and the decode into three slots is an ArityError.
\<close>

lemma row_literal_doubled:
  "snd (Row example_lib [Integer, KText, KText]
          (SBytes (''(1,'' @ [dquote] @ ''jeff '' @ [dquote, dquote] @ ''the'' @ [dquote, dquote]
                    @ '' bob'' @ [dquote] @ '',)'')))
     = Err ArityError"
  by code_simp

section \<open>Properties of the encoding of NULL\<close>

text \<open>A NULL value of every kind but the key-value map encodes to the token NULL.\<close>

lemma null_encodes_NULL:
  "IsNull v \<Longrightarrow> (\<forall>m valid. v \<noteq> VHStore m valid) \<Longrightarrow> Value_bytes L v = Ok nullb"
  by (cases v) auto

text \<open>
  C5 (the claim fails on the code). The claim: every NULL value encodes to the bare
  token NULL, directly and as a child of an array or a row, whatever its kind. A row
  decoded from the list \<open>[nil]\<close> into one Text slot has a NULL child; \<open>rowBytes\<close> and
  \<open>pgArray.bytes\<close> wrap the child's \<open>NULL\<close> in quotes, as they do for every child that
  is not an integer, numeric, float or boolean (or, in arrays, an array or timestamp).
  The NULL key-value map encodes to the empty byte string: \<open>pgHStore.bytes\<close> does not
  look at \<open>valid\<close>.
\<close>

theorem null_child_quoted:
  "Row L [KText] (SList [SNil]) =
     (VRow [VText \<lparr>text_s = [], text_n = 0, text_p = False, text_valid = False\<rparr>] True, Ok ())
   \<and> Value_bytes L (VRow [VText \<lparr>text_s = [], text_n = 0, text_p = False,
                                  text_valid = False\<rparr>] True)
       = Ok (''('' @ [dquote] @ ''NULL'' @ [dquote] @ '')'')
   \<and> Value_bytes L (VArray [VText \<lparr>text_s = [], text_n = 0, text_p = False,
                                    text_valid = False\<rparr>] KText True)
       = Ok (''{'' @ [dquote] @ ''NULL'' @ [dquote] @ ''}'')
   \<and> HStore L SNil = (VHStore [] False, Ok ())
   \<and> Value_bytes L (VHStore [] False) = Ok []"
  by (simp add: Row_def row_sources_def pgText_Scan_def row_bare_def array_bare_def escape_def
      HStore_def pgHStore_Scan_def)

section \<open>Properties of the boolean kind\<close>

text \<open>
  C6, as stated, is false: the text \<^verbatim>\<open>x\<close>, whose first character is none of t, f, 1
  and 0, and the native int 5 decode without an error.
\<close>

theorem pgBool_Scan_counterexample:
  "Bool (SString ''x'' :: (unit, unit) native) = (\<lparr>bool_b = False, bool_valid = True\<rparr>, Ok ())
   \<and> Bool (SInt 5 :: (unit, unit) native) = (\<lparr>bool_b = False, bool_valid = True\<rparr>, Ok ())"
  by code_simp

text \<open>
  C6 (amended). Boolean decode succeeds when the source is a native boolean (the value
  is the boolean), a native int (true exactly for 1), or a non-empty text, string or
  byte slice (true exactly when the first character is t or 1, false for every other
  first character); for a non-nil source of any other type it fails with TypeMismatch.
\<close>

theorem pgBool_Scan_cases:
  "(\<forall>x. pgBool_Scan k (SBool x) = (\<lparr>bool_b = x, bool_valid = True\<rparr>, Ok ()))
   \<and> (\<forall>x. pgBool_Scan k (SInt x) = (\<lparr>bool_b = (x = 1), bool_valid = True\<rparr>, Ok ()))
   \<and> (\<forall>x. x \<noteq> [] \<longrightarrow> pgBool_Scan k (SString x)
          = (\<lparr>bool_b = (hd x = CHR ''t'' \<or> hd x = CHR ''1''), bool_valid = True\<rparr>, Ok ()))
   \<and> (\<forall>x. x \<noteq> [] \<longrightarrow> pgBool_Scan k (SBytes x)
          = (\<lparr>bool_b = (hd x = CHR ''t'' \<or> hd x = CHR ''1''), bool_valid = True\<rparr>, Ok ()))
   \<and> (\<forall>src. src \<noteq> SNil \<and> (\<forall>x. src \<noteq> SBool x) \<and> (\<forall>x. src \<noteq> SInt x)
            \<and> (\<forall>x. src \<noteq> SString x) \<and> (\<forall>x. src \<noteq> SBytes x)
          \<longrightarrow> pgBool_Scan k src = (\<lparr>bool_b = False, bool_valid = True\<rparr>, Err TypeMismatch))"
  by (auto simp: pgBool_Scan_def bool_of_text_def Let_def split: native.splits list.splits)

theorem pgBool_Scan_cases_witness:
  "''true'' \<noteq> []
   \<and> pgBool_Scan \<lparr>bool_b = False, bool_valid = False\<rparr> (SString ''true'' :: (unit, unit) native)
       = (\<lparr>bool_b = True, bool_valid = True\<rparr>, Ok ())
   \<and> (SFloat64 () :: (unit, unit) native) \<noteq> SNil
   \<and> pgBool_Scan \<lparr>bool_b = False, bool_valid = False\<rparr> (SFloat64 () :: (unit, unit) native)
       = (\<lparr>bool_b = False, bool_valid = True\<rparr>, Err TypeMismatch)"
proof -
  note c = pgBool_Scan_cases[of "\<lparr>bool_b = False, bool_valid = False\<rparr>"]
  note s = c[THEN conjunct2, THEN conjunct2, THEN conjunct1, THEN spec, of "''true''"]
  note f = c[THEN conjunct2, THEN conjunct2, THEN conjunct2, THEN conjunct2, THEN spec,
      of "SFloat64 ()"]
  show ?thesis
    using s f by simp
qed

section \<open>Properties of the key-value map\<close>

text \<open>
  C7. The decode of the key-value text \<^verbatim>\<open>"key" => "value1", "k2" => NULL\<close> succeeds;
  the map holds the text value \<open>value1\<close> for the key \<open>key\<close> and has no entry for the key
  \<open>k2\<close>.
\<close>

theorem hstore_literal_decode:
  "snd (HStore L (SBytes hstore_literal)) = Ok ()
   \<and> pgHStore_ValueBy (Map (fst (HStore L (SBytes hstore_literal)))) ''key''
       = Some (VText \<lparr>text_s = ''value1'', text_n = 0, text_p = False, text_valid = True\<rparr>)
   \<and> pgHStore_ValueBy (Map (fst (HStore L (SBytes hstore_literal)))) ''k2'' = None
   \<and> map fst (Map (fst (HStore L (SBytes hstore_literal)))) = [''key'']"
  by (simp add: HStore_literal_scan pgHStore_ValueBy_def)

section \<open>Properties of the access by name\<close>

lemma col_index_None: "col_index cs name i = None \<longleftrightarrow> name \<notin> fst ` set cs"
  by (induction cs arbitrary: i) auto

text \<open>
  On a record, a name that matches no column: \<open>ValueBy\<close> returns nil, \<open>Set\<close> returns the
  not-found error and leaves the record as it was, \<open>Get\<close> panics.
\<close>

lemma record_missing_name:
  assumes "name \<notin> fst ` set cs"
  shows "pgRecord_ValueBy vs cs name = Ok None"
    and "pgRecord_Set L vs cs valid name src = (VRecord vs cs valid, Err NotFound)"
    and "pgRecord_Get vs cs name = Panic"
proof -
  have "col_index cs name 0 = None"
    using assms by (simp add: col_index_None)
  then show "pgRecord_ValueBy vs cs name = Ok None"
    and "pgRecord_Set L vs cs valid name src = (VRecord vs cs valid, Err NotFound)"
    and "pgRecord_Get vs cs name = Panic"
    by (simp_all add: pgRecord_ValueBy_def pgRecord_Set_def pgRecord_Get_def)
qed

text \<open>On a key-value map, a name that is no key: \<open>ValueBy\<close> returns nil, \<open>Set\<close> and \<open>Get\<close> panic.\<close>

lemma hstore_missing_name:
  assumes "name \<notin> fst ` set m"
  shows "pgHStore_ValueBy m name = None"
    and "pgHStore_Set L m valid name src = (VHStore m valid, Panic)"
    and "pgHStore_Get m name = Panic"
proof -
  have "map_of m name = None"
    using assms by (simp add: map_of_eq_None_iff)
  then show "pgHStore_ValueBy m name = None"
    and "pgHStore_Set L m valid name src = (VHStore m valid, Panic)"
    and "pgHStore_Get m name = Panic"
    by (simp_all add: pgHStore_ValueBy_def pgHStore_Set_def pgHStore_Get_def)
qed

text \<open>
  C9 (the claim fails on the code). The claim: on records and on key-value maps, \<open>Set\<close>
  and \<open>ValueBy\<close> with a name that matches nothing return a recoverable not-found
  signal, and only \<open>Get\<close> is a fatal fault. On the map decoded from
  \<^verbatim>\<open>"key" => "value1", "k2" => NULL\<close>, \<open>ValueBy\<close> returns nil for the name \<open>k2\<close>, and
  \<open>Set\<close> with that name panics: \<open>pgHStore.Set\<close> calls \<open>Scan\<close> on the nil value without
  the check that \<open>pgRecord.Set\<close> makes.
\<close>

theorem hstore_set_missing_panics:
  "pgHStore_ValueBy (Map (fst (HStore L (SBytes hstore_literal)))) ''k2'' = None
   \<and> snd (pgHStore_Set L (Map (fst (HStore L (SBytes hstore_literal)))) True ''k2''
            (SString ''x'')) = Panic"
  by (simp add: HStore_literal_scan pgHStore_ValueBy_def pgHStore_Set_def)

section \<open>Properties of the integer kinds\<close>

text \<open>
  C4 (the claim fails on the code). The claim: a native integer decodes into a kind of
  width 16, 32 or 64 exactly when it fits a signed integer of that width, the extreme
  values included, and fails with a RangeError otherwise. \<open>fitInt\<close> compares with
  \<open>r < math.MaxInt16\<close> and has no lower bound: the largest 16-bit value 32767 is
  refused with a RangeError, and -40000, which does not fit 16 bits, is stored.
\<close>

theorem fitInt_bounds:
  "newInt 16 (SInt 32767) = (\<lparr>int_n = 0, int_bs = 16, int_valid = True\<rparr>, Err RangeError)
   \<and> newInt 16 (SInt (- 40000)) = (\<lparr>int_n = - 40000, int_bs = 16, int_valid = True\<rparr>, Ok ())"
  by (simp add: newInt_def pgInteger_Scan_def is_go_int_def fitInt_def fitInt_convert_def
      store_int_def)

text \<open>What \<open>fitInt\<close> accepts of an \<open>int64\<close>, for each width.\<close>

lemma fitInt_accepts:
  "(snd (fitInt (SInt64 r) 16) = None) = (sint r < 32767)"
  "(snd (fitInt (SInt64 r) 32) = None) = (sint r < 2147483647)"
  "snd (fitInt (SInt64 r) 64) = None"
  by (simp_all add: fitInt_def fitInt_convert_def)

text \<open>
  C8, as stated, is false: the decode of the native value 300 into a kind of width 16
  does not fail with a RangeError.
\<close>

theorem smallint_300_counterexample:
  "\<not> (snd (newInt 16 (SInt 300 :: (unit, unit) native)) = Err RangeError
      \<and> snd (newInt 32 (SInt 300 :: (unit, unit) native)) = Ok ())"
  by (simp add: newInt_def pgInteger_Scan_def is_go_int_def fitInt_def fitInt_convert_def
      store_int_def)

text \<open>
  C8 (amended). The decode of the native value 300 succeeds and stores 300 both into a
  kind of width 16 (300 fits a signed 16-bit integer) and into a kind of width 32.
\<close>

theorem decode_300:
  "newInt 16 (SInt 300) = (\<lparr>int_n = 300, int_bs = 16, int_valid = True\<rparr>, Ok ())
   \<and> newInt 32 (SInt 300) = (\<lparr>int_n = 300, int_bs = 32, int_valid = True\<rparr>, Ok ())"
  by (simp add: newInt_def pgInteger_Scan_def is_go_int_def fitInt_def fitInt_convert_def
      store_int_def)

section \<open>The validity flag after Scan\<close>

text \<open>
  C10. For a value of a scalar kind (integer, numeric, enum, float, boolean, text,
  bytea, timestamp), after \<open>Scan\<close> the value reports \<open>IsNull\<close> exactly when the source was
  nil: a non-nil source leaves \<open>IsNull() = false\<close>, also when \<open>Scan\<close> returns an error.
\<close>

theorem scan_validity:
  assumes "is_scalar k"
  shows "IsNull (fst (Value_Scan L k src)) = (src = SNil)"
proof (cases k)
  case (VInteger x)
  then show ?thesis
    by (auto simp: pgInteger_Scan_def store_int_def Let_def
        split: native.splits prod.splits option.splits)
next
  case (VNumeric x)
  then show ?thesis
    by (auto simp: pgNumeric_Scan_def Let_def split: native.splits prod.splits)
next
  case (VEnum x)
  then show ?thesis
    by (auto simp: pgEnum_Scan_def enum_check_def Let_def split: native.splits prod.splits)
next
  case (VFloat x)
  then show ?thesis
    by (auto simp: pgFloat_Scan_def store_float_def Let_def
        split: native.splits prod.splits option.splits)
next
  case (VBool x)
  then show ?thesis
    by (auto simp: pgBool_Scan_def bool_of_text_def Let_def
        split: native.splits prod.splits list.splits)
next
  case (VText x)
  then show ?thesis
    by (auto simp: pgText_Scan_def text_fit_def Let_def split: native.splits prod.splits)
next
  case (VBytea x)
  then show ?thesis
    by (auto simp: pgBytea_Scan_def Let_def split: native.splits prod.splits)
next
  case (VTimestamp x)
  then show ?thesis
    by (auto simp: pgTimestamp_Scan_def store_time_def Let_def
        split: native.splits prod.splits option.splits)
qed (use assms in simp_all)

theorem scan_validity_witness:
  "is_scalar (blank example_lib SmallInt)
   \<and> Value_Scan example_lib (blank example_lib SmallInt) (SString ''abc'')
       = (VInteger \<lparr>int_n = 0, int_bs = 16, int_valid = True\<rparr>, Err ParseError)
   \<and> \<not> IsNull (fst (Value_Scan example_lib (blank example_lib SmallInt) (SString ''abc'')))
   \<and> IsNull (fst (Value_Scan example_lib (blank example_lib SmallInt) SNil))"
proof -
  have a: "is_scalar (blank example_lib SmallInt)"
    by simp
  have b: "Value_Scan example_lib (blank example_lib SmallInt) (SString ''abc'')
       = (VInteger \<lparr>int_n = 0, int_bs = 16, int_valid = True\<rparr>, Err ParseError)"
    by (simp add: pgInteger_Scan_def is_go_int_def store_int_def ParseInt_abc)
  have c: "\<not> IsNull (fst (Value_Scan example_lib (blank example_lib SmallInt) (SString ''abc'')))"
    using scan_validity[OF a, of example_lib "SString ''abc''"] by simp
  have d: "IsNull (fst (Value_Scan example_lib (blank example_lib SmallInt) SNil))"
    using scan_validity[OF a, of example_lib SNil] by simp
  show ?thesis
    by (intro conjI a b c d)
qed

section \<open>Round trips\<close>


























lemma reference_not_zero: "reference_time \<noteq> civil_zero"
  by (simp add: reference_time_def civil_zero_def)












text \<open>
  An integer that \<open>fitInt\<close> lets through below the width does not survive the round
  trip: -40000 is stored in a 16-bit kind, and its rendering is out of range for
  \<open>strconv.ParseInt\<close>.
\<close>

lemma nat_dec_40000: "nat_dec 40000 = ''40000''"
  by (simp add: nat_dec.simps digit_chars)

lemma fmt_d_below: "fmt_d (- 40000) = ''-40000''"
  by (simp add: fmt_d_def nat_dec_40000)

lemma ParseInt_below: "strconv_ParseInt ''-40000'' 16 = (- 32768, Some RangeError)"
  by (simp add: strconv_ParseInt_def is_digit_chars Let_def)

lemma roundtrip_below_width:
  "\<not> roundtrip_stable L (VInteger \<lparr>int_n = 0, int_bs = 16, int_valid = False\<rparr>) (SInt (- 40000))"
proof -
  let ?k = "VInteger \<lparr>int_n = 0, int_bs = 16, int_valid = False\<rparr> :: ('a, 'b) value"
  let ?k1 = "VInteger \<lparr>int_n = - 40000, int_bs = 16, int_valid = True\<rparr> :: ('a, 'b) value"
  have a: "Value_Scan L ?k (SInt (- 40000)) = (?k1, Ok ())"
    by (simp add: pgInteger_Scan_def is_go_int_def fitInt_def fitInt_convert_def store_int_def)
  have b: "Value_bytes L ?k1 = Ok ''-40000''"
    by (simp add: fmt_d_below)
  have c: "snd (Value_Scan L ?k (SBytes ''-40000'')) = Err RangeError"
    by (simp add: pgInteger_Scan_def is_go_int_def store_int_def ParseInt_below)
  have "roundtrip_stable L ?k (SInt (- 40000)) = (Value_Scan L ?k (SBytes ''-40000'') = (?k1, Ok ()))"
    by (simp only: roundtrip_stable_def a b prod.case result.case)
  moreover have "Value_Scan L ?k (SBytes ''-40000'') \<noteq> (?k1, Ok ())"
    using c by (metis snd_conv result.distinct(1))
  ultimately show ?thesis by simp
qed

end
